theory Spec2Isabelle
  imports Complex_Main
begin

section \<open>The partial-update compiler (sql.js)\<close>

text \<open>
  The two error classes of expressError that the modelled code raises, and the
  plain error with which the database client refuses a statement it cannot run.
  A \<^verbatim>\<open>throw\<close> is the left injection of a sum; \<open>BadRequestError\<close> carries its
  message.
\<close>

datatype error = BadRequestError string | NotFoundError | DatabaseError

text \<open>
  The object returned by \<^verbatim>\<open>sqlForPartialUpdate\<close>: \<^verbatim>\<open>{ setCols, values }\<close>.
\<close>

record 'v partial_update =
  setCols :: string
  "values" :: "'v list"

text \<open>
  The decimal text of a non-negative integer, as the template literal
  \<^verbatim>\<open>${idx + 1}\<close> prints it (a JS number below \<open>10^21\<close> prints in plain decimal; an
  object cannot hold that many keys).
\<close>

definition digit_char :: "nat \<Rightarrow> char" where
  "digit_char d = ''0123456789'' ! d"

function string_of_nat :: "nat \<Rightarrow> string" where
  "string_of_nat n =
     (if n < 10 then [digit_char n]
      else string_of_nat (n div 10) @ [digit_char (n mod 10)])"
  by pat_completeness auto
termination
  by (relation "measure id") auto

declare string_of_nat.simps [simp del]

text \<open>Reading a decimal text back; used to state that a placeholder shows its index.\<close>

definition digit_value :: "char \<Rightarrow> nat" where
  "digit_value c = of_char c - 48"

definition nat_of_string :: "string \<Rightarrow> nat" where
  "nat_of_string s = foldl (\<lambda>acc c. 10 * acc + digit_value c) 0 s"

text \<open>\<^verbatim>\<open>Array.prototype.join\<close> on a list of strings.\<close>

fun join :: "string \<Rightarrow> string list \<Rightarrow> string" where
  "join sep [] = []"
| "join sep [x] = x"
| "join sep (x # y # ys) = x @ sep @ join sep (y # ys)"

text \<open>
  \<^verbatim>\<open>keys.map((colName, idx) => ...)\<close>: the callback receives the element and its
  index, counted from the first argument here.
\<close>

fun map_idx :: "('a \<Rightarrow> nat \<Rightarrow> 'b) \<Rightarrow> nat \<Rightarrow> 'a list \<Rightarrow> 'b list" where
  "map_idx f idx [] = []"
| "map_idx f idx (x # xs) = f x idx # map_idx f (Suc idx) xs"

text \<open>
  The translation object \<open>jsToSql\<close> is an ordinary object whose own properties map
  property names to column names (strings); it is the finite map of these own
  properties. A property read \<^verbatim>\<open>jsToSql[colName]\<close> that finds no own property goes
  on to \<^verbatim>\<open>Object.prototype\<close>, whose members are functions, and for \<^verbatim>\<open>__proto__\<close> the
  prototype object itself: all truthy. \<open>Object_prototype\<close> maps the name of each
  member to the text that a template literal prints for it (a native function
  as Node prints it).
\<close>

definition native_function :: "string \<Rightarrow> string" where
  "native_function name = ''function '' @ name @ ''() { [native code] }''"

definition Object_prototype :: "string \<rightharpoonup> string" where
  "Object_prototype =
     map_of
       [(''constructor'', native_function ''Object''),
        (''__defineGetter__'', native_function ''__defineGetter__''),
        (''__defineSetter__'', native_function ''__defineSetter__''),
        (''hasOwnProperty'', native_function ''hasOwnProperty''),
        (''__lookupGetter__'', native_function ''__lookupGetter__''),
        (''__lookupSetter__'', native_function ''__lookupSetter__''),
        (''isPrototypeOf'', native_function ''isPrototypeOf''),
        (''propertyIsEnumerable'', native_function ''propertyIsEnumerable''),
        (''toString'', native_function ''toString''),
        (''valueOf'', native_function ''valueOf''),
        (''__proto__'', ''[object Object]''),
        (''toLocaleString'', native_function ''toLocaleString'')]"

text \<open>
  \<^verbatim>\<open>jsToSql[colName] || colName\<close>, as the template literal prints it. An own
  property shadows the prototype; the only falsy string is the empty one, and
  for it \<^verbatim>\<open>||\<close> yields the right operand. Without an own property the read yields
  the inherited member when \<open>colName\<close> names one (truthy, so it is what gets
  printed) and \<^verbatim>\<open>undefined\<close> otherwise, for which \<^verbatim>\<open>||\<close> yields \<open>colName\<close>.
\<close>

definition column_name :: "(string \<rightharpoonup> string) \<Rightarrow> string \<Rightarrow> string" where
  "column_name jsToSql colName =
     (case jsToSql colName of
        Some sqlName \<Rightarrow> if sqlName = [] then colName else sqlName
      | None \<Rightarrow>
          (case Object_prototype colName of
             Some inherited \<Rightarrow> inherited
           | None \<Rightarrow> colName))"

text \<open>
  \<^verbatim>\<open>`"${jsToSql[colName] || colName}"=$${idx + 1}`\<close>, the callback of the map.
\<close>

definition col_assignment :: "(string \<rightharpoonup> string) \<Rightarrow> string \<Rightarrow> nat \<Rightarrow> string" where
  "col_assignment jsToSql colName idx =
     [CHR 0x22] @ column_name jsToSql colName @ [CHR 0x22] @ ''=$'' @ string_of_nat (idx + 1)"

text \<open>
  The specification's own shape of one assignment, \<^verbatim>\<open>"<column>"=$<position>\<close>,
  against which the compiled text is compared.
\<close>

definition spec_assignment :: "string \<Rightarrow> nat \<Rightarrow> string" where
  "spec_assignment column position =
     [CHR 0x22] @ column @ [CHR 0x22] @ ''=$'' @ string_of_nat position"

text \<open>
  \<^verbatim>\<open>sqlForPartialUpdate(dataToUpdate, jsToSql)\<close>. The object \<open>dataToUpdate\<close> is the
  list of its own enumerable properties in the order in which \<^verbatim>\<open>Object.keys\<close> and
  \<^verbatim>\<open>Object.values\<close> enumerate them (one order for both); the values are of any
  type, the function only passes them on.
\<close>

definition sqlForPartialUpdate ::
  "(string \<times> 'v) list \<Rightarrow> (string \<rightharpoonup> string) \<Rightarrow> error + 'v partial_update" where
  "sqlForPartialUpdate dataToUpdate jsToSql =
     (let keys = map fst dataToUpdate in
      if length keys = 0 then Inl (BadRequestError ''No data'')
      else
        let cols = map_idx (col_assignment jsToSql) 0 keys in
        Inr \<lparr>setCols = join '', '' cols, values = map snd dataToUpdate\<rparr>)"

section \<open>The GET /companies route (routes/companies.js)\<close>

text \<open>
  A JS number, as far as the comparison \<^verbatim>\<open>>\<close> can tell numbers apart: not-a-number,
  the two infinities, or the real value of a finite double.
\<close>

datatype jsnum = NaN | NegInfinity | Finite real | PosInfinity

text \<open>\<^verbatim>\<open>a > b\<close> on numbers: false as soon as one operand is \<^verbatim>\<open>NaN\<close>.\<close>

fun js_gt :: "jsnum \<Rightarrow> jsnum \<Rightarrow> bool" where
  "js_gt NaN b = False"
| "js_gt a NaN = False"
| "js_gt NegInfinity b = False"
| "js_gt a NegInfinity = True"
| "js_gt PosInfinity PosInfinity = False"
| "js_gt PosInfinity (Finite y) = True"
| "js_gt (Finite x) PosInfinity = False"
| "js_gt (Finite x) (Finite y) = (y < x)"

text \<open>
  \<^verbatim>\<open>x ? Number(x) : undefined\<close> on a property of \<^verbatim>\<open>req.query\<close>: the property is
  missing (\<open>None\<close>) or a string, and a string is truthy unless it is empty. The
  built-in \<^verbatim>\<open>Number\<close> is a parameter: the route's control flow is the same for
  every conversion function. (A repeated or bracketed query parameter, which the
  query parser turns into an array or an object, is outside this type.)
\<close>

definition number_or_undefined :: "(string \<Rightarrow> jsnum) \<Rightarrow> string option \<Rightarrow> jsnum option" where
  "number_or_undefined Number x =
     (case x of None \<Rightarrow> None | Some s \<Rightarrow> if s = [] then None else Some (Number s))"

text \<open>
  \<^verbatim>\<open>minEmployees !== undefined && maxEmployees !== undefined && minEmployees > maxEmployees\<close>
\<close>

fun min_exceeds_max :: "jsnum option \<Rightarrow> jsnum option \<Rightarrow> bool" where
  "min_exceeds_max (Some lo) (Some hi) = js_gt lo hi"
| "min_exceeds_max lo hi = False"

text \<open>
  The handler up to the call of \<^verbatim>\<open>Company.findAll\<close> (lines 77 to 85): either the
  thrown error, or the three arguments the finder is about to be called with.
\<close>

definition GET_companies_args ::
  "(string \<Rightarrow> jsnum) \<Rightarrow> string option \<Rightarrow> string option \<Rightarrow> string option
     \<Rightarrow> error + (string option \<times> jsnum option \<times> jsnum option)" where
  "GET_companies_args Number name minEmployees maxEmployees =
     (let minEmployees' = number_or_undefined Number minEmployees;
          maxEmployees' = number_or_undefined Number maxEmployees
      in if min_exceeds_max minEmployees' maxEmployees'
         then Inl (BadRequestError ''minEmployees must be less than maxEmployees'')
         else Inr (name, minEmployees', maxEmployees'))"

text \<open>
  What the handler hands over: \<^verbatim>\<open>res.json({ companies })\<close> or \<^verbatim>\<open>next(err)\<close>.
\<close>

datatype 'c response = Json 'c | Next error

text \<open>
  The whole handler. \<^verbatim>\<open>Company.findAll\<close> lives in models/company.js and is a
  parameter here; an error it throws is caught by the same \<^verbatim>\<open>catch\<close>.
\<close>

definition GET_companies ::
  "(string \<Rightarrow> jsnum) \<Rightarrow> (string option \<Rightarrow> jsnum option \<Rightarrow> jsnum option \<Rightarrow> error + 'c)
     \<Rightarrow> string option \<Rightarrow> string option \<Rightarrow> string option \<Rightarrow> 'c response" where
  "GET_companies Number findAll name minEmployees maxEmployees =
     (case GET_companies_args Number name minEmployees maxEmployees of
        Inl err \<Rightarrow> Next err
      | Inr (name', minEmployees', maxEmployees') \<Rightarrow>
          (case findAll name' minEmployees' maxEmployees' of
             Inl err \<Rightarrow> Next err
           | Inr companies \<Rightarrow> Json companies))"

subsection \<open>The built-in conversion of a string to a number\<close>

text \<open>
  \<^verbatim>\<open>Number(s)\<close> on a string, after the language standard (StringToNumber). A string
  is a list of code units below 256 here. White space and line terminators are
  stripped from both ends; the empty rest is \<open>0\<close>; a rest that is a numeric literal
  is the double nearest to its mathematical value; any other rest is \<^verbatim>\<open>NaN\<close>.
\<close>

definition is_digit :: "char \<Rightarrow> bool" where
  "is_digit c = (c \<in> set ''0123456789'')"

definition StrWhiteSpaceChar :: "char \<Rightarrow> bool" where
  "StrWhiteSpaceChar c =
     (c \<in> set [CHR 0x09, CHR 0x0A, CHR 0x0B, CHR 0x0C, CHR 0x0D, CHR 0x20, CHR 0xA0])"

definition trim :: "string \<Rightarrow> string" where
  "trim s = rev (dropWhile StrWhiteSpaceChar (rev (dropWhile StrWhiteSpaceChar s)))"

text \<open>
  The literals with a radix prefix, \<^verbatim>\<open>0x\<close>, \<^verbatim>\<open>0o\<close> and \<^verbatim>\<open>0b\<close> in either case, take no
  sign and at least one digit of the radix.
\<close>

definition radix_digit :: "char \<rightharpoonup> nat" where
  "radix_digit =
     map_of (zip ''0123456789abcdefABCDEF''
               [0, 1, 2, 3, 4, 5, 6, 7, 8, 9, 10, 11, 12, 13, 14, 15, 10, 11, 12, 13, 14, 15])"

definition radix_value :: "nat \<Rightarrow> string \<Rightarrow> nat option" where
  "radix_value radix ds =
     (if ds \<noteq> [] \<and> list_all (\<lambda>c. case radix_digit c of None \<Rightarrow> False | Some d \<Rightarrow> d < radix) ds
      then Some (foldl (\<lambda>acc c. radix * acc + the (radix_digit c)) 0 ds)
      else None)"

fun NonDecimalIntegerLiteral :: "string \<Rightarrow> nat option" where
  "NonDecimalIntegerLiteral (z # p # ds) =
     (if z \<noteq> CHR ''0'' then None
      else if p \<in> set ''xX'' then radix_value 16 ds
      else if p \<in> set ''oO'' then radix_value 8 ds
      else if p \<in> set ''bB'' then radix_value 2 ds
      else None)"
| "NonDecimalIntegerLiteral s = None"

text \<open>
  The exponent part of a decimal literal: nothing, or \<^verbatim>\<open>e\<close> or \<^verbatim>\<open>E\<close>, an optional
  sign and at least one digit, up to the end of the literal.
\<close>

fun ExponentPart :: "string \<Rightarrow> int option" where
  "ExponentPart [] = Some 0"
| "ExponentPart (e # ds) =
     (if e \<notin> set ''eE'' then None
      else
        (case ds of
           [] \<Rightarrow> None
         | c # cs \<Rightarrow>
             let (negative, digits) =
                   (if c = CHR ''-'' then (True, cs) else if c = CHR ''+'' then (False, cs)
                    else (False, ds))
             in if digits \<noteq> [] \<and> list_all is_digit digits
                then Some (if negative then - int (nat_of_string digits)
                           else int (nat_of_string digits))
                else None))"

text \<open>
  An unsigned decimal literal other than \<^verbatim>\<open>Infinity\<close>: digits, an optional point
  with optional digits after it, an optional exponent, with at least one digit
  before or after the point. Its mathematical value is the digits read as one
  integer, scaled by the power of ten that the exponent and the number of
  digits after the point give.
\<close>

definition StrUnsignedDecimalLiteral :: "string \<Rightarrow> real option" where
  "StrUnsignedDecimalLiteral s =
     (let whole = takeWhile is_digit s;
          rest = dropWhile is_digit s;
          (fraction, rest') =
             (case rest of
                [] \<Rightarrow> ([], rest)
              | c # cs \<Rightarrow>
                  if c = CHR ''.'' then (takeWhile is_digit cs, dropWhile is_digit cs)
                  else ([], rest))
      in if whole = [] \<and> fraction = [] then None
         else
           (case ExponentPart rest' of
              None \<Rightarrow> None
            | Some e \<Rightarrow>
                let digits = real (nat_of_string (whole @ fraction));
                    scale = e - int (length fraction)
                in Some (if 0 \<le> scale then digits * 10 ^ nat scale
                         else digits / 10 ^ nat (- scale))))"

text \<open>
  The double nearest to a real number, ties going to the even significand; a
  result of magnitude \<open>2^1024\<close> or more is an infinity. The significand has 53
  bits, and below \<open>2^-1022\<close> the spacing of the doubles stays \<open>2^-1074\<close>.
\<close>

definition round_half_even :: "real \<Rightarrow> int" where
  "round_half_even q =
     (let f = \<lfloor>q\<rfloor>; d = q - of_int f
      in if d < 1/2 then f else if 1/2 < d then f + 1 else if even f then f else f + 1)"

definition round_double :: "real \<Rightarrow> jsnum" where
  "round_double x =
     (if x = 0 then Finite 0
      else
        let e = max \<lfloor>log 2 \<bar>x\<bar>\<rfloor> (- 1022);
            ulp = 2 powr (of_int e - 52);
            y = of_int (round_half_even (x / ulp)) * ulp
        in if 2 ^ 1024 \<le> \<bar>y\<bar> then (if 0 < x then PosInfinity else NegInfinity)
           else Finite y)"

definition signed :: "bool \<Rightarrow> jsnum \<Rightarrow> jsnum" where
  "signed negative v =
     (if \<not> negative then v
      else (case v of
              NaN \<Rightarrow> NaN
            | NegInfinity \<Rightarrow> PosInfinity
            | Finite x \<Rightarrow> Finite (- x)
            | PosInfinity \<Rightarrow> NegInfinity))"

definition StrDecimalLiteral :: "string \<Rightarrow> jsnum" where
  "StrDecimalLiteral s =
     (let (negative, body) =
            (case s of
               [] \<Rightarrow> (False, s)
             | c # cs \<Rightarrow>
                 if c = CHR ''-'' then (True, cs) else if c = CHR ''+'' then (False, cs)
                 else (False, s))
      in if body = ''Infinity'' then signed negative PosInfinity
         else
           (case StrUnsignedDecimalLiteral body of
              None \<Rightarrow> NaN
            | Some mv \<Rightarrow> signed negative (round_double mv)))"

definition js_Number :: "string \<Rightarrow> jsnum" where
  "js_Number s =
     (let literal = trim s
      in if literal = [] then Finite 0
         else
           (case NonDecimalIntegerLiteral literal of
              Some n \<Rightarrow> round_double (real n)
            | None \<Rightarrow> StrDecimalLiteral literal))"

section \<open>Stored rows and the model operations (models/job.js, models/company.js)\<close>

text \<open>
  Of the two model files only the tests are available (models/job.test.js and
  the route tests), so the definitions of this section follow the
  specification, sections 3, 4.2 and 4.3. A stored value is \<^verbatim>\<open>NULL\<close>, an integer, a \<^verbatim>\<open>NUMERIC\<close> (which the database
  client renders as a decimal string such as \<^verbatim>\<open>"0.1"\<close>; the model keeps the number
  it denotes) or a text. A row maps column names to values, a table is the list
  of its rows in storage order.
\<close>

datatype sqlval = SqlNull | SqlInt int | SqlNumeric real | SqlText string

type_synonym row = "string \<rightharpoonup> sqlval"

type_synonym table = "row list"

subsection \<open>Existence-checked get, update and remove\<close>

text \<open>
  Modelled from the spec: the key-based lookup shared by \<^verbatim>\<open>get\<close>, \<^verbatim>\<open>update\<close> and
  \<^verbatim>\<open>remove\<close> of models/job.js and models/company.js (section 4.3: ``accepts a
  primary key (job id or company handle). Looks up the record''). The key column
  is \<^verbatim>\<open>id\<close> for jobs and \<^verbatim>\<open>handle\<close> for companies.
\<close>

definition has_key :: "string \<Rightarrow> sqlval \<Rightarrow> row \<Rightarrow> bool" where
  "has_key keyCol key r = (r keyCol = Some key)"

definition lookup :: "string \<Rightarrow> table \<Rightarrow> sqlval \<Rightarrow> row option" where
  "lookup keyCol tbl key = find (has_key keyCol key) tbl"

text \<open>
  Modelled from the spec: \<^verbatim>\<open>get(key)\<close> of the absent model files (section 4.3:
  ``if absent, fails with a "not found" condition''). Reading leaves the table
  as it is, so no table is returned.
\<close>

definition get_by_key :: "string \<Rightarrow> table \<Rightarrow> sqlval \<Rightarrow> error + row" where
  "get_by_key keyCol tbl key =
     (case lookup keyCol tbl key of None \<Rightarrow> Inl NotFoundError | Some r \<Rightarrow> Inr r)"

text \<open>
  Modelled from the spec: the effect of the \<^verbatim>\<open>SET\<close> clause on one row (section 3:
  ``only supplied fields change, unsupplied fields retain prior value, explicit
  null clears a nullable field''). The assignments are applied in their order.
\<close>

fun assign :: "(string \<times> sqlval) list \<Rightarrow> row \<Rightarrow> row" where
  "assign [] r = r"
| "assign ((col, v) # rest) r = assign rest (r(col \<mapsto> v))"

text \<open>
  Modelled from the spec: the database reading the \<^verbatim>\<open>SET\<close> clause it is sent (section
  4.1: ``a single comma-joined string of \<^verbatim>\<open>"<column>"=$<position>\<close> assignments'').
  The clause is scanned character by character: a quoted, non-empty column
  name, \<^verbatim>\<open>=$\<close>, a decimal position, and either the end or a comma and a blank
  before the next assignment. Any other text is refused (\<open>None\<close>).
\<close>

datatype set_scan =
    ExpectQuote
  | InIdent string
  | ExpectEq string
  | ExpectDollar string
  | InNumber string string
  | ExpectSpace

fun parse_set :: "set_scan \<Rightarrow> string \<Rightarrow> (string \<times> nat) list option" where
  "parse_set ExpectQuote (c # s) =
     (if c = CHR 0x22 then parse_set (InIdent []) s else None)"
| "parse_set (InIdent ident) (c # s) =
     (if c = CHR 0x22 then (if ident = [] then None else parse_set (ExpectEq ident) s)
      else parse_set (InIdent (ident @ [c])) s)"
| "parse_set (ExpectEq col) (c # s) =
     (if c = CHR ''='' then parse_set (ExpectDollar col) s else None)"
| "parse_set (ExpectDollar col) (c # s) =
     (if c = CHR ''$'' then parse_set (InNumber col []) s else None)"
| "parse_set (InNumber col ds) (c # s) =
     (if is_digit c then parse_set (InNumber col (ds @ [c])) s
      else if c = CHR '','' \<and> ds \<noteq> []
        then map_option ((#) (col, nat_of_string ds)) (parse_set ExpectSpace s)
      else None)"
| "parse_set (InNumber col ds) [] =
     (if ds = [] then None else Some [(col, nat_of_string ds)])"
| "parse_set ExpectSpace (c # s) =
     (if c = CHR '' '' then parse_set ExpectQuote s else None)"
| "parse_set st [] = None"


text \<open>
  Modelled from the spec: the binding of the placeholders (section 4.1: the
  values are ``positionally aligned with the \<^verbatim>\<open>$<position>\<close> placeholders
  (1-indexed)''). A position without a parameter is refused.
\<close>

definition bind_params :: "(string \<times> nat) list \<Rightarrow> 'v list \<Rightarrow> (string \<times> 'v) list option" where
  "bind_params targets params =
     (if list_all (\<lambda>(col, position). 1 \<le> position \<and> position \<le> length params) targets
      then Some (map (\<lambda>(col, position). (col, params ! (position - 1))) targets)
      else None)"

text \<open>
  Modelled from the spec: \<^verbatim>\<open>update(key, partialFields)\<close> of the absent model files
  (section 4.3: the lookup ``must happen before attempting update/delete'';
  ``Update combines 4.1's compiled SQL with the key-based lookup; the returned
  record reflects post-update state read back from storage''; sections 3 and 7:
  ``handle and id fields are never mutable via update operations'', a bad
  request on an ``attempt to mutate an immutable key field''). The statement
  that runs is the compiled one: the assignments are read off \<^verbatim>\<open>setCols\<close> and
  bound to \<^verbatim>\<open>values\<close>. The key column, the other immutable columns and the
  translation table that the model passes to the compiler are parameters. The
  result is paired with the table after the call.
\<close>

definition update_by_key ::
  "string \<Rightarrow> string list \<Rightarrow> (string \<rightharpoonup> string) \<Rightarrow> table \<Rightarrow> sqlval \<Rightarrow> (string \<times> sqlval) list
     \<Rightarrow> (error + row) \<times> table" where
  "update_by_key keyCol immutable jsToSql tbl key data =
     (case lookup keyCol tbl key of
        None \<Rightarrow> (Inl NotFoundError, tbl)
      | Some found \<Rightarrow>
          (case sqlForPartialUpdate data jsToSql of
             Inl err \<Rightarrow> (Inl err, tbl)
           | Inr sql \<Rightarrow>
               (case parse_set ExpectQuote (setCols sql) of
                  None \<Rightarrow> (Inl DatabaseError, tbl)
                | Some targets \<Rightarrow>
                    if list_ex (\<lambda>(col, position). col \<in> set (keyCol # immutable)) targets
                    then (Inl (BadRequestError ''immutable field''), tbl)
                    else
                      (case bind_params targets (values sql) of
                         None \<Rightarrow> (Inl DatabaseError, tbl)
                       | Some assignments \<Rightarrow>
                           let tbl' = map (\<lambda>r. if has_key keyCol key r
                                                 then assign assignments r else r) tbl
                           in (get_by_key keyCol tbl' key, tbl')))))"

text \<open>
  Modelled from the spec: \<^verbatim>\<open>remove(key)\<close> of the absent model files (section 3:
  ``destroyed via delete-by-key; deleting a nonexistent key signals a not-found
  condition rather than succeeding silently'').
\<close>

definition remove_by_key :: "string \<Rightarrow> table \<Rightarrow> sqlval \<Rightarrow> (error + unit) \<times> table" where
  "remove_by_key keyCol tbl key =
     (case lookup keyCol tbl key of
        None \<Rightarrow> (Inl NotFoundError, tbl)
      | Some found \<Rightarrow> (Inr (), filter (\<lambda>r. \<not> has_key keyCol key r) tbl))"


text \<open>
  The job model, as its tests call it: the key is the \<^verbatim>\<open>id\<close> column, the company
  handle is immutable too (section 3), and the one field whose column has
  another name is \<^verbatim>\<open>companyHandle\<close> (column \<^verbatim>\<open>company_handle\<close> in models/job.test.js).
\<close>

definition Job_jsToSql :: "string \<rightharpoonup> string" where
  "Job_jsToSql = [''companyHandle'' \<mapsto> ''company_handle'']"

definition Job_get :: "table \<Rightarrow> int \<Rightarrow> error + row" where
  "Job_get tbl jobId = get_by_key ''id'' tbl (SqlInt jobId)"

definition Job_update ::
  "table \<Rightarrow> int \<Rightarrow> (string \<times> sqlval) list \<Rightarrow> (error + row) \<times> table" where
  "Job_update tbl jobId data =
     update_by_key ''id'' [''company_handle''] Job_jsToSql tbl (SqlInt jobId) data"

definition Job_remove :: "table \<Rightarrow> int \<Rightarrow> (error + unit) \<times> table" where
  "Job_remove tbl jobId = remove_by_key ''id'' tbl (SqlInt jobId)"

subsection \<open>The filtered finders\<close>

text \<open>
  Modelled from the spec: the predicates of the \<^verbatim>\<open>WHERE\<close> clause that \<^verbatim>\<open>findAll\<close> of
  the absent model files builds (section 4.2): case-insensitive containment on a
  text column, inclusive lower and upper bounds on an integer column, and
  ``non-null and strictly greater than zero'' on a numeric column. A comparison
  with \<^verbatim>\<open>NULL\<close> does not hold.
\<close>

datatype pred =
    ILike string string
  | AtLeast string int
  | AtMost string int
  | Positive string

definition to_lower :: "char \<Rightarrow> char" where
  "to_lower c =
     (case map_of (zip ''ABCDEFGHIJKLMNOPQRSTUVWXYZ'' ''abcdefghijklmnopqrstuvwxyz'') c of
        None \<Rightarrow> c
      | Some l \<Rightarrow> l)"

fun starts_with :: "string \<Rightarrow> string \<Rightarrow> bool" where
  "starts_with [] s = True"
| "starts_with (p # ps) [] = False"
| "starts_with (p # ps) (c # cs) = (p = c \<and> starts_with ps cs)"

fun contains :: "string \<Rightarrow> string \<Rightarrow> bool" where
  "contains pat [] = (pat = [])"
| "contains pat (c # cs) = (starts_with pat (c # cs) \<or> contains pat cs)"

fun holds :: "row \<Rightarrow> pred \<Rightarrow> bool" where
  "holds r (ILike col pat) =
     (case r col of Some (SqlText s) \<Rightarrow> contains (map to_lower pat) (map to_lower s) | _ \<Rightarrow> False)"
| "holds r (AtLeast col n) = (case r col of Some (SqlInt v) \<Rightarrow> n \<le> v | _ \<Rightarrow> False)"
| "holds r (AtMost col n) = (case r col of Some (SqlInt v) \<Rightarrow> v \<le> n | _ \<Rightarrow> False)"
| "holds r (Positive col) = (case r col of Some (SqlNumeric e) \<Rightarrow> 0 < e | _ \<Rightarrow> False)"

text \<open>
  Modelled from the spec: the query of \<^verbatim>\<open>findAll\<close> (section 4.2): the rows that
  satisfy every predicate of the conjunctive \<^verbatim>\<open>WHERE\<close> clause, in storage order;
  with no predicate there is no \<^verbatim>\<open>WHERE\<close> clause.
\<close>

definition select_where :: "pred list \<Rightarrow> table \<Rightarrow> table" where
  "select_where preds tbl = filter (\<lambda>r. list_all (holds r) preds) tbl"

text \<open>
  Modelled from the spec: the predicates \<^verbatim>\<open>Job.findAll(title, minSalary, hasEquity)\<close>
  appends (section 4.2: one for each filter that is present; the equity filter
  ``when true, restricts to rows whose equity is both non-null and strictly
  greater than zero; when false or absent, no equity predicate is added'').
  \<open>None\<close> is an omitted (\<^verbatim>\<open>undefined\<close>) argument.
\<close>

definition Job_filters :: "string option \<Rightarrow> int option \<Rightarrow> bool option \<Rightarrow> pred list" where
  "Job_filters title minSalary hasEquity =
     (case title of None \<Rightarrow> [] | Some t \<Rightarrow> [ILike ''title'' t])
     @ (case minSalary of None \<Rightarrow> [] | Some m \<Rightarrow> [AtLeast ''salary'' m])
     @ (if hasEquity = Some True then [Positive ''equity''] else [])"

definition Job_findAll :: "table \<Rightarrow> string option \<Rightarrow> int option \<Rightarrow> bool option \<Rightarrow> table" where
  "Job_findAll tbl title minSalary hasEquity =
     select_where (Job_filters title minSalary hasEquity) tbl"

text \<open>
  Modelled from the spec: the predicates
  \<^verbatim>\<open>Company.findAll(name, minEmployees, maxEmployees)\<close> appends (section 4.2), and
  the finder itself. Nothing in section 4.2 makes the finder fail, so it returns
  a table.
\<close>

definition Company_filters :: "string option \<Rightarrow> int option \<Rightarrow> int option \<Rightarrow> pred list" where
  "Company_filters name minEmployees maxEmployees =
     (case name of None \<Rightarrow> [] | Some n \<Rightarrow> [ILike ''name'' n])
     @ (case minEmployees of None \<Rightarrow> [] | Some lo \<Rightarrow> [AtLeast ''num_employees'' lo])
     @ (case maxEmployees of None \<Rightarrow> [] | Some hi \<Rightarrow> [AtMost ''num_employees'' hi])"

definition Company_findAll ::
  "table \<Rightarrow> string option \<Rightarrow> int option \<Rightarrow> int option \<Rightarrow> table" where
  "Company_findAll tbl name minEmployees maxEmployees =
     select_where (Company_filters name minEmployees maxEmployees) tbl"

text \<open>
  The three jobs that models/job.test.js expects of \<^verbatim>\<open>Job.findAll()\<close> before any
  change, as stored rows.
\<close>

definition job_row :: "int \<Rightarrow> string \<Rightarrow> sqlval \<Rightarrow> sqlval \<Rightarrow> string \<Rightarrow> row" where
  "job_row jobId title salary equity company_handle =
     [''id'' \<mapsto> SqlInt jobId, ''title'' \<mapsto> SqlText title, ''salary'' \<mapsto> salary,
      ''equity'' \<mapsto> equity, ''company_handle'' \<mapsto> SqlText company_handle]"

definition test_jobs :: table where
  "test_jobs =
     [job_row 1 ''j1'' (SqlInt 100000) (SqlNumeric (1/10)) ''c1'',
      job_row 2 ''j2'' (SqlInt 200000) (SqlNumeric (2/10)) ''c2'',
      job_row 3 ''j3'' (SqlInt 300000) (SqlNumeric (3/10)) ''c3'']"

section \<open>Properties of the partial-update compiler\<close>

subsection \<open>The indexed map and the decimal text of an index\<close>

lemma length_map_idx: "length (map_idx f i xs) = length xs"
  by (induction xs arbitrary: i) simp_all

lemma nth_map_idx: "k < length xs \<Longrightarrow> map_idx f i xs ! k = f (xs ! k) (i + k)"
proof (induction xs arbitrary: i k)
  case Nil
  then show ?case by simp
next
  case (Cons x xs)
  then show ?case by (cases k) simp_all
qed

lemma map_idx_zip: "map_idx f i xs = map (\<lambda>(x, j). f x j) (zip xs [i..<i + length xs])"
proof (induction xs arbitrary: i)
  case Nil
  then show ?case by simp
next
  case (Cons x xs)
  have "[i..<i + length (x # xs)] = i # [Suc i..<Suc i + length xs]"
    by (subst upt_rec) simp
  with Cons show ?case by simp
qed

lemma digit_value_digit_char: "d < 10 \<Longrightarrow> digit_value (digit_char d) = d"
proof -
  assume "d < 10"
  then have "d \<in> {0,1,2,3,4,5,6,7,8,9}" by auto
  then show ?thesis
    by (auto simp: digit_value_def digit_char_def)
qed

lemma nat_of_string_snoc: "nat_of_string (s @ [c]) = 10 * nat_of_string s + digit_value c"
  by (simp add: nat_of_string_def)

lemma nat_of_string_string_of_nat: "nat_of_string (string_of_nat n) = n"
proof (induction n rule: string_of_nat.induct)
  case (1 n)
  show ?case
  proof (cases "n < 10")
    case True
    then show ?thesis
      by (simp add: string_of_nat.simps [of n] nat_of_string_def digit_value_digit_char)
  next
    case False
    with 1 have "nat_of_string (string_of_nat (n div 10)) = n div 10" by simp
    with False show ?thesis
      by (simp add: string_of_nat.simps [of n] nat_of_string_snoc digit_value_digit_char)
  qed
qed

subsection \<open>The compiled assignments\<close>

lemma sqlForPartialUpdate_nonempty:
  "dataToUpdate \<noteq> [] \<Longrightarrow>
   sqlForPartialUpdate dataToUpdate jsToSql =
     Inr \<lparr>setCols = join '', '' (map_idx (col_assignment jsToSql) 0 (map fst dataToUpdate)),
          values = map snd dataToUpdate\<rparr>"
  by (simp add: sqlForPartialUpdate_def)

lemma col_assignment_spec:
  "col_assignment jsToSql colName idx = spec_assignment (column_name jsToSql colName) (idx + 1)"
  by (simp add: col_assignment_def spec_assignment_def)

lemma compiled_cols_nth:
  "i < length dataToUpdate \<Longrightarrow>
   map_idx (col_assignment jsToSql) 0 (map fst dataToUpdate) ! i =
     spec_assignment (column_name jsToSql (fst (dataToUpdate ! i))) (i + 1)"
  by (simp add: nth_map_idx col_assignment_spec)

text \<open>
  Claim C1. For a non-empty update mapping, \<^verbatim>\<open>sqlForPartialUpdate\<close> returns a record
  whose \<^verbatim>\<open>setCols\<close> is the \<^verbatim>\<open>", "\<close>-join of exactly one assignment
  \<^verbatim>\<open>"<column>"=$<position>\<close> per input key, in the order of the keys, the positions
  being \<open>1, 2, \<dots>, n\<close>; \<^verbatim>\<open>values\<close> has one entry per key, the \<open>i\<close>-th being the
  \<open>i\<close>-th input value, so placeholder \<open>i + 1\<close> binds it (the decimal text of a
  position reads back as that position).
\<close>

theorem sqlForPartialUpdate_assignments:
  assumes "dataToUpdate \<noteq> []"
  shows "\<exists>r. sqlForPartialUpdate dataToUpdate jsToSql = Inr r
         \<and> setCols r = join '', ''
              (map (\<lambda>(colName, position). spec_assignment (column_name jsToSql colName) position)
                   (zip (map fst dataToUpdate) [1..<Suc (length dataToUpdate)]))
         \<and> length (values r) = length dataToUpdate
         \<and> (\<forall>i < length dataToUpdate.
               values r ! i = snd (dataToUpdate ! i)
             \<and> nat_of_string (string_of_nat (i + 1)) = i + 1)"
proof -
  let ?keys = "map fst dataToUpdate"
  have "map_idx (col_assignment jsToSql) 0 ?keys =
        map (\<lambda>(colName, idx). col_assignment jsToSql colName idx)
            (zip ?keys [0..<length dataToUpdate])"
    by (simp add: map_idx_zip)
  also have "\<dots> = map (\<lambda>(colName, position).
                      spec_assignment (column_name jsToSql colName) position)
                   (zip ?keys (map Suc [0..<length dataToUpdate]))"
    by (simp add: zip_map2 col_assignment_spec case_prod_unfold)
  also have "map Suc [0..<length dataToUpdate] = [1..<Suc (length dataToUpdate)]"
    by (simp add: map_Suc_upt)
  finally show ?thesis
    using assms
    by (simp add: sqlForPartialUpdate_nonempty nat_of_string_string_of_nat)
qed

theorem sqlForPartialUpdate_assignments_witness:
  \<open>[(''firstName'', Inl ''Test''), (''lastName'', Inl ''Tester''), (''age'', Inr (30::int))] \<noteq> []
   \<and> (\<exists>r. sqlForPartialUpdate
        [(''firstName'', Inl ''Test''), (''lastName'', Inl ''Tester''), (''age'', Inr (30::int))]
        [''firstName'' \<mapsto> ''first_name'', ''lastName'' \<mapsto> ''last_name''] = Inr r
      \<and> setCols r = ''"first_name"=$1, "last_name"=$2, "age"=$3''
      \<and> length (values r) = 3
      \<and> values r ! 0 = Inl ''Test'' \<and> values r ! 1 = Inl ''Tester'' \<and> values r ! 2 = Inr 30)\<close>
proof -
  let ?d = "[(''firstName'', Inl ''Test''), (''lastName'', Inl ''Tester''), (''age'', Inr (30::int))]"
  let ?j = "[''firstName'' \<mapsto> ''first_name'', ''lastName'' \<mapsto> ''last_name'']"
  have ne: "?d \<noteq> []" by simp
  from sqlForPartialUpdate_assignments [OF ne, of ?j] obtain r where
    "sqlForPartialUpdate ?d ?j = Inr r"
    "setCols r = join '', ''
              (map (\<lambda>(colName, position). spec_assignment (column_name ?j colName) position)
                   (zip (map fst ?d) [1..<Suc (length ?d)]))"
    "length (values r) = length ?d"
    "\<forall>i < length ?d. values r ! i = snd (?d ! i)"
    by blast
  then show ?thesis
    by (simp add: column_name_def Object_prototype_def spec_assignment_def string_of_nat.simps digit_char_def)
qed

text \<open>
  Claim C2. On the empty update mapping \<^verbatim>\<open>sqlForPartialUpdate\<close> throws
  \<^verbatim>\<open>BadRequestError("No data")\<close>, whatever the translation mapping; it returns no
  result.
\<close>

theorem sqlForPartialUpdate_empty:
  "sqlForPartialUpdate [] jsToSql = Inl (BadRequestError ''No data'')
   \<and> (\<nexists>r. sqlForPartialUpdate [] jsToSql = Inr r)"
  by (simp add: sqlForPartialUpdate_def)

subsection \<open>Column-name resolution\<close>

lemma column_name_own: "jsToSql colName = Some sqlName \<Longrightarrow> sqlName \<noteq> [] \<Longrightarrow>
  column_name jsToSql colName = sqlName"
  by (simp add: column_name_def)

lemma column_name_empty: "jsToSql colName = Some [] \<Longrightarrow> column_name jsToSql colName = colName"
  by (simp add: column_name_def)

lemma column_name_missing: "jsToSql colName = None \<Longrightarrow> Object_prototype colName = None \<Longrightarrow>
  column_name jsToSql colName = colName"
  by (simp add: column_name_def)

text \<open>
  Claim C3, as stated, fails in two ways. Where the translation mapping has an
  empty entry (\<^verbatim>\<open>{a: ""}\<close>), the field has an entry and the compiled column is the
  field name \<^verbatim>\<open>a\<close>, not the translated name. Where a field without an entry is
  named like a member of \<^verbatim>\<open>Object.prototype\<close> (\<^verbatim>\<open>toString\<close>), the compiled column is
  the text of the inherited member, not the field name.
\<close>

theorem sqlForPartialUpdate_empty_translation_counterexample:
  \<open>[''a'' \<mapsto> ''''] ''a'' = Some ''''
   \<and> sqlForPartialUpdate [(''a'', 1::int)] [''a'' \<mapsto> '''']
       = Inr \<lparr>setCols = ''"a"=$1'', values = [1]\<rparr>
   \<and> sqlForPartialUpdate [(''a'', 1::int)] [''a'' \<mapsto> '''']
       \<noteq> Inr \<lparr>setCols = ''""=$1'', values = [1]\<rparr>
   \<and> [''firstName'' \<mapsto> ''first_name''] ''toString'' = None
   \<and> sqlForPartialUpdate [(''toString'', 1::int)] [''firstName'' \<mapsto> ''first_name'']
       = Inr \<lparr>setCols = ''"function toString() { [native code] }"=$1'', values = [1]\<rparr>
   \<and> sqlForPartialUpdate [(''toString'', 1::int)] [''firstName'' \<mapsto> ''first_name'']
       \<noteq> Inr \<lparr>setCols = ''"toString"=$1'', values = [1]\<rparr>\<close>
  by (simp add: sqlForPartialUpdate_def col_assignment_def column_name_def Object_prototype_def
      native_function_def string_of_nat.simps digit_char_def)

text \<open>
  Claim C3, amended. For every field of a non-empty update mapping, the column of
  its assignment is the translated name when the translation mapping has a
  non-empty entry for the field; it is the field name unchanged when the entry
  is empty, and when there is no entry and the field is not named like a member
  of \<^verbatim>\<open>Object.prototype\<close>. With translation \<^verbatim>\<open>{firstName: "first_name"}\<close> and input
  \<^verbatim>\<open>{firstName: "Test", age: 30}\<close> the result is
  \<^verbatim>\<open>setCols = '"first_name"=$1, "age"=$2'\<close>, \<^verbatim>\<open>values = ["Test", 30]\<close>.
\<close>

theorem sqlForPartialUpdate_column_resolution:
  \<open>(dataToUpdate \<noteq> [] \<longrightarrow>
     (\<exists>cols. sqlForPartialUpdate dataToUpdate jsToSql
               = Inr \<lparr>setCols = join '', '' cols, values = map snd dataToUpdate\<rparr>
        \<and> length cols = length dataToUpdate
        \<and> (\<forall>i < length dataToUpdate. \<forall>sqlName.
             (jsToSql (fst (dataToUpdate ! i)) = Some sqlName \<and> sqlName \<noteq> []
                \<longrightarrow> cols ! i = spec_assignment sqlName (i + 1))
           \<and> (jsToSql (fst (dataToUpdate ! i)) = Some []
                \<longrightarrow> cols ! i = spec_assignment (fst (dataToUpdate ! i)) (i + 1))
           \<and> (jsToSql (fst (dataToUpdate ! i)) = None
                \<and> Object_prototype (fst (dataToUpdate ! i)) = None
                \<longrightarrow> cols ! i = spec_assignment (fst (dataToUpdate ! i)) (i + 1)))))
   \<and> sqlForPartialUpdate [(''firstName'', Inl ''Test''), (''age'', Inr (30::int))]
        [''firstName'' \<mapsto> ''first_name'']
       = Inr \<lparr>setCols = ''"first_name"=$1, "age"=$2'', values = [Inl ''Test'', Inr 30]\<rparr>\<close>
proof (intro conjI impI)
  assume ne: "dataToUpdate \<noteq> []"
  let ?cols = "map_idx (col_assignment jsToSql) 0 (map fst dataToUpdate)"
  have "\<forall>i < length dataToUpdate. \<forall>sqlName.
             (jsToSql (fst (dataToUpdate ! i)) = Some sqlName \<and> sqlName \<noteq> []
                \<longrightarrow> ?cols ! i = spec_assignment sqlName (i + 1))
           \<and> (jsToSql (fst (dataToUpdate ! i)) = Some []
                \<longrightarrow> ?cols ! i = spec_assignment (fst (dataToUpdate ! i)) (i + 1))
           \<and> (jsToSql (fst (dataToUpdate ! i)) = None
                \<and> Object_prototype (fst (dataToUpdate ! i)) = None
                \<longrightarrow> ?cols ! i = spec_assignment (fst (dataToUpdate ! i)) (i + 1))"
    by (auto simp: compiled_cols_nth column_name_own column_name_empty column_name_missing)
  with ne show "\<exists>cols. sqlForPartialUpdate dataToUpdate jsToSql
               = Inr \<lparr>setCols = join '', '' cols, values = map snd dataToUpdate\<rparr>
        \<and> length cols = length dataToUpdate
        \<and> (\<forall>i < length dataToUpdate. \<forall>sqlName.
             (jsToSql (fst (dataToUpdate ! i)) = Some sqlName \<and> sqlName \<noteq> []
                \<longrightarrow> cols ! i = spec_assignment sqlName (i + 1))
           \<and> (jsToSql (fst (dataToUpdate ! i)) = Some []
                \<longrightarrow> cols ! i = spec_assignment (fst (dataToUpdate ! i)) (i + 1))
           \<and> (jsToSql (fst (dataToUpdate ! i)) = None
                \<and> Object_prototype (fst (dataToUpdate ! i)) = None
                \<longrightarrow> cols ! i = spec_assignment (fst (dataToUpdate ! i)) (i + 1)))"
    by (intro exI [of _ ?cols]) (simp add: sqlForPartialUpdate_nonempty length_map_idx)
next
  show \<open>sqlForPartialUpdate [(''firstName'', Inl ''Test''), (''age'', Inr (30::int))]
        [''firstName'' \<mapsto> ''first_name'']
       = Inr \<lparr>setCols = ''"first_name"=$1, "age"=$2'', values = [Inl ''Test'', Inr 30]\<rparr>\<close>
    by (simp add: sqlForPartialUpdate_def col_assignment_def column_name_def Object_prototype_def
        string_of_nat.simps digit_char_def)
qed

theorem sqlForPartialUpdate_column_resolution_witness:
  \<open>[(''firstName'', Inl ''Test''), (''country'', Inr (7::int))] \<noteq> []
   \<and> (\<exists>cols. sqlForPartialUpdate [(''firstName'', Inl ''Test''), (''country'', Inr (7::int))]
                 [''firstName'' \<mapsto> ''first_name'']
               = Inr \<lparr>setCols = join '', '' cols, values = [Inl ''Test'', Inr 7]\<rparr>
        \<and> length cols = 2
        \<and> cols ! 0 = ''"first_name"=$1''
        \<and> cols ! 1 = ''"country"=$2'')\<close>
proof -
  let ?d = "[(''firstName'', Inl ''Test''), (''country'', Inr (7::int))]"
  let ?j = "[''firstName'' \<mapsto> ''first_name'']"
  have ne: "?d \<noteq> []" by simp
  from sqlForPartialUpdate_column_resolution [of ?d ?j] ne obtain cols where
    r: "sqlForPartialUpdate ?d ?j = Inr \<lparr>setCols = join '', '' cols, values = map snd ?d\<rparr>"
    and l: "length cols = length ?d"
    and n: "\<forall>i < length ?d. \<forall>sqlName.
             (?j (fst (?d ! i)) = Some sqlName \<and> sqlName \<noteq> []
                \<longrightarrow> cols ! i = spec_assignment sqlName (i + 1))
           \<and> (?j (fst (?d ! i)) = Some []
                \<longrightarrow> cols ! i = spec_assignment (fst (?d ! i)) (i + 1))
           \<and> (?j (fst (?d ! i)) = None \<and> Object_prototype (fst (?d ! i)) = None
                \<longrightarrow> cols ! i = spec_assignment (fst (?d ! i)) (i + 1))"
    by blast
  from n [rule_format, of 0] have "cols ! 0 = spec_assignment ''first_name'' 1"
    by simp
  moreover from n [rule_format, of 1] have "cols ! 1 = spec_assignment ''country'' 2"
    by (simp add: numeral_2_eq_2 Object_prototype_def)
  ultimately show ?thesis using r l ne
    by (auto simp add: spec_assignment_def string_of_nat.simps digit_char_def)
qed

text \<open>
  Claim C9. When the translation mapping maps a field to a falsy value (for a
  column name, a string, that is the empty string), \<^verbatim>\<open>jsToSql[colName] || colName\<close>
  is the field name: the call succeeds and the assignment of that field carries
  the untranslated name.
\<close>

theorem sqlForPartialUpdate_falsy_translation:
  assumes "i < length dataToUpdate"
    and "jsToSql (fst (dataToUpdate ! i)) = Some []"
  shows "column_name jsToSql (fst (dataToUpdate ! i)) = fst (dataToUpdate ! i)
     \<and> (\<exists>cols. sqlForPartialUpdate dataToUpdate jsToSql
               = Inr \<lparr>setCols = join '', '' cols, values = map snd dataToUpdate\<rparr>
        \<and> length cols = length dataToUpdate
        \<and> cols ! i = spec_assignment (fst (dataToUpdate ! i)) (i + 1))"
proof -
  let ?cols = "map_idx (col_assignment jsToSql) 0 (map fst dataToUpdate)"
  from assms(1) have ne: "dataToUpdate \<noteq> []" by auto
  have name: "column_name jsToSql (fst (dataToUpdate ! i)) = fst (dataToUpdate ! i)"
    using assms(2) by (simp add: column_name_def)
  with assms(1) have "?cols ! i = spec_assignment (fst (dataToUpdate ! i)) (i + 1)"
    by (simp add: compiled_cols_nth)
  with ne name show ?thesis
    by (intro conjI exI [of _ ?cols]) (simp_all add: sqlForPartialUpdate_nonempty length_map_idx)
qed

theorem sqlForPartialUpdate_falsy_translation_witness:
  \<open>(1::nat) < length [(''title'', Inl ''new''), (''salary'', Inr (5::int))]
   \<and> [''salary'' \<mapsto> ''''] (fst ([(''title'', Inl ''new''), (''salary'', Inr (5::int))] ! 1)) = Some []
   \<and> (\<exists>cols. sqlForPartialUpdate [(''title'', Inl ''new''), (''salary'', Inr (5::int))]
                 [''salary'' \<mapsto> '''']
               = Inr \<lparr>setCols = join '', '' cols, values = [Inl ''new'', Inr 5]\<rparr>
        \<and> length cols = 2
        \<and> cols ! 1 = ''"salary"=$2'')\<close>
proof -
  let ?d = "[(''title'', Inl ''new''), (''salary'', Inr (5::int))]"
  let ?j = "[''salary'' \<mapsto> '''']"
  have i: "(1::nat) < length ?d" by simp
  have e: "?j (fst (?d ! 1)) = Some []" by simp
  from sqlForPartialUpdate_falsy_translation [of 1 ?d ?j] i e show ?thesis
    by (auto simp add: spec_assignment_def string_of_nat.simps digit_char_def)
qed

section \<open>Properties of the GET /companies route\<close>

lemma js_gt_NaN_right: "\<not> js_gt x NaN"
  by (cases x) simp_all

subsection \<open>Values of the built-in conversion\<close>

lemma round_half_even_of_int: "round_half_even (of_int m) = m"
  by (simp add: round_half_even_def)

text \<open>A natural number below \<open>2^53\<close> is a double: rounding leaves it as it is.\<close>

lemma round_double_of_nat:
  assumes "n < 2 ^ 53"
  shows "round_double (real n) = Finite (real n)"
proof (cases "n = 0")
  case True
  then show ?thesis by (simp add: round_double_def)
next
  case False
  then have pos: "0 < real n" and ge1: "1 \<le> real n" by simp_all
  define e where "e = \<lfloor>log 2 (real n)\<rfloor>"
  have "0 \<le> log 2 (real n)" using ge1 by simp
  then have e0: "0 \<le> e" by (simp add: e_def)
  have below: "real n < 2 ^ 53"
    using assms by (metis of_nat_less_iff of_nat_numeral of_nat_power)
  then have "log 2 (real n) < 53"
    using pos by (simp add: log_less_iff powr_realpow)
  then have e52: "e \<le> 52" by (simp add: e_def floor_le_iff)
  define k where "k = nat (52 - e)"
  have ulp: "(2::real) powr (of_int (max e (- 1022)) - 52) = 1 / 2 ^ k"
  proof -
    from e0 have "max e (- 1022) = e" by simp
    moreover have "of_int e - 52 = - real k" using e52 by (simp add: k_def)
    ultimately show ?thesis
      by (simp add: powr_minus powr_realpow inverse_eq_divide)
  qed
  have q: "real n / (1 / 2 ^ k) = of_int (int (n * 2 ^ k))" by simp
  have y: "of_int (round_half_even (real n / (1 / 2 ^ k))) * (1 / 2 ^ k) = real n"
    unfolding q round_half_even_of_int by simp
  have small: "\<not> (2 ^ 1024 \<le> real n)"
  proof -
    have "(2::real) ^ 53 \<le> 2 ^ 1024" by (rule power_increasing) simp_all
    with below show ?thesis by simp
  qed
  from False pos show ?thesis
    unfolding round_double_def Let_def
    by (simp only: abs_of_pos [OF pos] e_def [symmetric] ulp y small if_False of_nat_eq_0_iff)
qed

lemma js_Number_blank: "js_Number '' '' = Finite 0"
  by (simp add: js_Number_def trim_def StrWhiteSpaceChar_def)

lemma js_Number_examples:
  "js_Number ''5'' = Finite 5" "js_Number ''7'' = Finite 7" "js_Number ''10'' = Finite 10"
  "js_Number ''50'' = Finite 50"
  by (simp_all add: js_Number_def trim_def StrWhiteSpaceChar_def StrDecimalLiteral_def
      StrUnsignedDecimalLiteral_def is_digit_def nat_of_string_def digit_value_def signed_def
      round_double_of_nat [of 5, simplified] round_double_of_nat [of 7, simplified]
      round_double_of_nat [of 10, simplified] round_double_of_nat [of 50, simplified])

text \<open>
  The conversion on some literals and non-literals: white space is stripped, a
  radix prefix, a sign, a point and an exponent are read, and text that is no
  numeric literal is \<^verbatim>\<open>NaN\<close>.
\<close>

lemma js_Number_literals:
  "js_Number '' 42 '' = Finite 42" "js_Number ''0x1F'' = Finite 31"
  "js_Number ''0b101'' = Finite 5" "js_Number ''1e3'' = Finite 1000"
  "js_Number ''5.'' = Finite 5" "js_Number ''-12'' = Finite (- 12)"
  "js_Number '''' = Finite 0" "js_Number ''-Infinity'' = NegInfinity"
  by (simp_all add: js_Number_def trim_def StrWhiteSpaceChar_def StrDecimalLiteral_def
      StrUnsignedDecimalLiteral_def is_digit_def nat_of_string_def digit_value_def signed_def
      radix_value_def radix_digit_def
      round_double_of_nat [of 42, simplified] round_double_of_nat [of 31, simplified]
      round_double_of_nat [of 5, simplified] round_double_of_nat [of 1000, simplified]
      round_double_of_nat [of 12, simplified])

lemma js_Number_not_literals:
  "js_Number ''12px'' = NaN" "js_Number ''1e'' = NaN" "js_Number ''.'' = NaN"
  "js_Number ''0x'' = NaN" "js_Number ''- 1'' = NaN" "js_Number ''-0x10'' = NaN"
  "js_Number ''infinity'' = NaN" "js_Number ''1,5'' = NaN"
  by (simp_all add: js_Number_def trim_def StrWhiteSpaceChar_def StrDecimalLiteral_def
      StrUnsignedDecimalLiteral_def is_digit_def nat_of_string_def digit_value_def signed_def
      radix_value_def radix_digit_def)

lemma js_Number_abc: "js_Number ''abc'' = NaN"
  by (simp add: js_Number_def trim_def StrWhiteSpaceChar_def StrDecimalLiteral_def
      StrUnsignedDecimalLiteral_def is_digit_def)

text \<open>
  Claim C8. When both \<^verbatim>\<open>minEmployees\<close> and \<^verbatim>\<open>maxEmployees\<close> are supplied (non-empty)
  and the first exceeds the second as numbers, the handler throws
  \<^verbatim>\<open>BadRequestError\<close> before the finder is called: its response is
  \<^verbatim>\<open>next(BadRequestError)\<close> whatever \<^verbatim>\<open>Company.findAll\<close> would do. The finder has no
  such check: given a lower bound above the upper bound it returns normally, with
  no row.
\<close>

theorem GET_companies_min_exceeds_max:
  assumes "minEmployees \<noteq> []" and "maxEmployees \<noteq> []"
    and "js_gt (Number minEmployees) (Number maxEmployees)"
  shows "GET_companies_args Number name (Some minEmployees) (Some maxEmployees)
           = Inl (BadRequestError ''minEmployees must be less than maxEmployees'')
     \<and> GET_companies Number findAll name (Some minEmployees) (Some maxEmployees)
           = Next (BadRequestError ''minEmployees must be less than maxEmployees'')
     \<and> (\<forall>tbl n lo hi. hi < lo \<longrightarrow> Company_findAll tbl n (Some lo) (Some hi) = [])"
proof -
  have args: "GET_companies_args Number name (Some minEmployees) (Some maxEmployees)
           = Inl (BadRequestError ''minEmployees must be less than maxEmployees'')"
    using assms by (simp add: GET_companies_args_def number_or_undefined_def)
  then have "GET_companies Number findAll name (Some minEmployees) (Some maxEmployees)
           = Next (BadRequestError ''minEmployees must be less than maxEmployees'')"
    by (simp add: GET_companies_def)
  moreover have "Company_findAll tbl n (Some lo) (Some hi) = []" if "hi < lo" for tbl n lo hi
  proof -
    have "\<not> list_all (holds r) (Company_filters n (Some lo) (Some hi))" for r
      using that by (auto simp: Company_filters_def split: option.splits sqlval.splits)
    then show ?thesis
      by (simp add: Company_findAll_def select_where_def)
  qed
  ultimately show ?thesis using args by blast
qed

theorem GET_companies_min_exceeds_max_witness:
  "''10'' \<noteq> [] \<and> ''5'' \<noteq> [] \<and> js_gt (js_Number ''10'') (js_Number ''5'')
   \<and> GET_companies js_Number (\<lambda>n lo hi. Inr [n]) (Some ''net'') (Some ''10'') (Some ''5'')
        = Next (BadRequestError ''minEmployees must be less than maxEmployees'')
   \<and> (5::int) < 10 \<and> Company_findAll [[''name'' \<mapsto> SqlText ''sqlForPartialUpdate_assignments'', ''num_employees'' \<mapsto> SqlInt 7]] None (Some 10) (Some 5) = []"
proof -
  have a: "''10'' \<noteq> []" and b: "''5'' \<noteq> []" by simp_all
  have c: "js_gt (js_Number ''10'') (js_Number ''5'')"
    by (simp add: js_Number_examples)
  note route = GET_companies_min_exceeds_max [OF a b c, of "Some ''net''" "\<lambda>n lo hi. Inr [n]"]
  from route have
    "(5::int) < 10 \<longrightarrow>
     Company_findAll [[''name'' \<mapsto> SqlText ''sqlForPartialUpdate_assignments'', ''num_employees'' \<mapsto> SqlInt 7]] None
       (Some 10) (Some 5) = []"
    by blast
  with route a b c show ?thesis by simp
qed

text \<open>
  Claim C10, as stated, fails on a bound that is non-empty and not numeric but of
  white space only: \<^verbatim>\<open>Number(" ")\<close> is \<open>0\<close>, not \<^verbatim>\<open>NaN\<close>, so the request
  \<^verbatim>\<open>minEmployees=7&maxEmployees=%20\<close> has \<open>7 > 0\<close> and is rejected with
  \<^verbatim>\<open>BadRequestError\<close>; the finder is not called.
\<close>

theorem GET_companies_blank_bound_counterexample:
  "'' '' \<noteq> [] \<and> js_Number '' '' = Finite 0 \<and> js_Number '' '' \<noteq> NaN
   \<and> GET_companies_args js_Number None (Some ''7'') (Some '' '')
        = Inl (BadRequestError ''minEmployees must be less than maxEmployees'')"
  by (simp add: GET_companies_args_def number_or_undefined_def js_Number_blank js_Number_examples)

text \<open>
  Claim C10, amended. When \<^verbatim>\<open>Number\<close> converts a non-empty \<^verbatim>\<open>minEmployees\<close> or
  \<^verbatim>\<open>maxEmployees\<close> to \<^verbatim>\<open>NaN\<close> (as it does not for every non-numeric string: one of
  white space only becomes \<open>0\<close>), the bound check does not fire (a comparison with
  \<^verbatim>\<open>NaN\<close> is false on either side): no \<^verbatim>\<open>BadRequestError\<close> is thrown,
  \<^verbatim>\<open>Company.findAll\<close> is called with \<^verbatim>\<open>NaN\<close> as that bound, and the response is
  whatever the finder yields. This holds whatever the conversion function is.
\<close>

theorem GET_companies_NaN_bound:
  "(minEmployees \<noteq> [] \<and> Number minEmployees = NaN \<longrightarrow>
      GET_companies_args Number name (Some minEmployees) maxEmployees'
        = Inr (name, Some NaN, number_or_undefined Number maxEmployees')
    \<and> GET_companies Number findAll name (Some minEmployees) maxEmployees'
        = (case findAll name (Some NaN) (number_or_undefined Number maxEmployees') of
             Inl err \<Rightarrow> Next err | Inr companies \<Rightarrow> Json companies))
   \<and> (maxEmployees \<noteq> [] \<and> Number maxEmployees = NaN \<longrightarrow>
      GET_companies_args Number name minEmployees' (Some maxEmployees)
        = Inr (name, number_or_undefined Number minEmployees', Some NaN)
    \<and> GET_companies Number findAll name minEmployees' (Some maxEmployees)
        = (case findAll name (number_or_undefined Number minEmployees') (Some NaN) of
             Inl err \<Rightarrow> Next err | Inr companies \<Rightarrow> Json companies))
   \<and> (\<forall>x. \<not> js_gt NaN x \<and> \<not> js_gt x NaN)"
proof (intro conjI impI allI)
  assume "minEmployees \<noteq> [] \<and> Number minEmployees = NaN"
  then show args: "GET_companies_args Number name (Some minEmployees) maxEmployees'
        = Inr (name, Some NaN, number_or_undefined Number maxEmployees')"
    by (cases "number_or_undefined Number maxEmployees'")
       (simp_all add: GET_companies_args_def number_or_undefined_def)
  then show "GET_companies Number findAll name (Some minEmployees) maxEmployees'
        = (case findAll name (Some NaN) (number_or_undefined Number maxEmployees') of
             Inl err \<Rightarrow> Next err | Inr companies \<Rightarrow> Json companies)"
    by (simp add: GET_companies_def)
next
  assume "maxEmployees \<noteq> [] \<and> Number maxEmployees = NaN"
  then show args: "GET_companies_args Number name minEmployees' (Some maxEmployees)
        = Inr (name, number_or_undefined Number minEmployees', Some NaN)"
    by (cases "number_or_undefined Number minEmployees'")
       (simp_all add: GET_companies_args_def number_or_undefined_def js_gt_NaN_right)
  then show "GET_companies Number findAll name minEmployees' (Some maxEmployees)
        = (case findAll name (number_or_undefined Number minEmployees') (Some NaN) of
             Inl err \<Rightarrow> Next err | Inr companies \<Rightarrow> Json companies)"
    by (simp add: GET_companies_def)
next
  fix x show "\<not> js_gt NaN x" by simp
next
  fix x show "\<not> js_gt x NaN" by (rule js_gt_NaN_right)
qed

theorem GET_companies_NaN_bound_witness:
  "''abc'' \<noteq> [] \<and> js_Number ''abc'' = NaN
   \<and> GET_companies_args js_Number (Some ''net'') (Some ''abc'') (Some ''5'')
        = Inr (Some ''net'', Some NaN, Some (Finite 5))
   \<and> GET_companies_args js_Number (Some ''net'') (Some ''50'') (Some ''abc'')
        = Inr (Some ''net'', Some (Finite 50), Some NaN)"
proof -
  have a: "''abc'' \<noteq> [] \<and> js_Number ''abc'' = NaN"
    by (simp add: js_Number_abc)
  have five: "number_or_undefined js_Number (Some ''5'') = Some (Finite 5)"
    and fifty: "number_or_undefined js_Number (Some ''50'') = Some (Finite 50)"
    by (simp_all add: number_or_undefined_def js_Number_examples)
  from GET_companies_NaN_bound [of "''abc''" js_Number "Some ''net''" "Some ''5''"
      "\<lambda>n lo hi. Inr ()" "''abc''" "Some ''50''"] a five fifty
  show ?thesis by simp
qed

section \<open>Properties of the model operations\<close>

subsection \<open>Lookup and assignment\<close>

lemma lookup_None_iff: "lookup keyCol tbl key = None \<longleftrightarrow> (\<forall>r \<in> set tbl. r keyCol \<noteq> Some key)"
  by (auto simp: lookup_def has_key_def find_None_iff)









subsection \<open>Reading the compiled clause back\<close>











subsection \<open>Get, update and remove by key\<close>

text \<open>
  Claim C5. When no stored row carries the key, \<^verbatim>\<open>get\<close>, \<^verbatim>\<open>update\<close> (whatever the
  fields, the empty payload included) and \<^verbatim>\<open>remove\<close> each fail with
  \<^verbatim>\<open>NotFoundError\<close>, and \<^verbatim>\<open>update\<close> and \<^verbatim>\<open>remove\<close> hand back the table they were
  given: nothing was changed.
\<close>

theorem missing_key_NotFound:
  assumes "\<forall>r \<in> set tbl. r keyCol \<noteq> Some key"
  shows "get_by_key keyCol tbl key = Inl NotFoundError
     \<and> update_by_key keyCol immutable jsToSql tbl key data = (Inl NotFoundError, tbl)
     \<and> remove_by_key keyCol tbl key = (Inl NotFoundError, tbl)"
proof -
  from assms have "lookup keyCol tbl key = None"
    by (simp add: lookup_None_iff)
  then show ?thesis
    by (simp add: get_by_key_def update_by_key_def remove_by_key_def)
qed

theorem missing_key_NotFound_witness:
  "Job_get test_jobs 0 = Inl NotFoundError
   \<and> Job_update test_jobs 0 [(''title'', SqlText ''new'')] = (Inl NotFoundError, test_jobs)
   \<and> Job_remove test_jobs 0 = (Inl NotFoundError, test_jobs)"
proof -
  have absent: "\<forall>r \<in> set test_jobs. r ''id'' \<noteq> Some (SqlInt 0)"
    by (simp add: test_jobs_def job_row_def)
  from missing_key_NotFound [OF absent] show ?thesis
    by (simp add: Job_get_def Job_update_def Job_remove_def)
qed




subsection \<open>The filtered finders\<close>

lemma select_where_Nil: "select_where [] tbl = tbl"
  by (simp add: select_where_def)

lemma select_where_single: "select_where [p] tbl = filter (\<lambda>r. holds r p) tbl"
  by (simp add: select_where_def)

lemma select_where_append:
  "select_where (ps @ qs) tbl = select_where qs (select_where ps tbl)"
  by (auto simp: select_where_def intro: filter_cong)

lemma set_select_where_append:
  "set (select_where (ps @ qs) tbl) = set (select_where ps tbl) \<inter> set (select_where qs tbl)"
  by (auto simp: select_where_def)

lemma set_Job_findAll:
  "set (Job_findAll tbl title minSalary hasEquity)
     = set (Job_findAll tbl title None None) \<inter> set (Job_findAll tbl None minSalary None)
       \<inter> set (Job_findAll tbl None None hasEquity)"
  by (simp add: Job_findAll_def Job_filters_def set_select_where_append select_where_Nil Int_assoc)

lemma set_Company_findAll:
  "set (Company_findAll tbl name minEmployees maxEmployees)
     = set (Company_findAll tbl name None None) \<inter> set (Company_findAll tbl None minEmployees None)
       \<inter> set (Company_findAll tbl None None maxEmployees)"
  by (simp add: Company_findAll_def Company_filters_def set_select_where_append select_where_Nil
      Int_assoc)

text \<open>
  Claim C6. With no filter the finders build no predicate and return every row,
  and the route called without query parameters passes no filter on. Each filter
  in force (supplied; for \<^verbatim>\<open>hasEquity\<close>, supplied as true, see claim C7) adds
  exactly one predicate. A single filter returns exactly the rows on which its
  predicate holds, and the rows returned under several filters are the
  intersection of the rows returned under each filter alone.
\<close>

theorem findAll_conjunction:
  "Job_filters None None None = [] \<and> Job_findAll tbl None None None = tbl
   \<and> Company_filters None None None = [] \<and> Company_findAll tbl None None None = tbl
   \<and> GET_companies_args Number None None None = Inr (None, None, None)
   \<and> length (Job_filters title minSalary hasEquity)
       = (if title = None then 0 else 1) + (if minSalary = None then 0 else 1)
         + (if hasEquity = Some True then 1 else 0)
   \<and> length (Company_filters name minEmployees maxEmployees)
       = (if name = None then 0 else 1) + (if minEmployees = None then 0 else 1)
         + (if maxEmployees = None then 0 else 1)
   \<and> Job_findAll tbl (Some t) None None = filter (\<lambda>r. holds r (ILike ''title'' t)) tbl
   \<and> Job_findAll tbl None (Some m) None = filter (\<lambda>r. holds r (AtLeast ''salary'' m)) tbl
   \<and> Job_findAll tbl None None (Some True) = filter (\<lambda>r. holds r (Positive ''equity'')) tbl
   \<and> Company_findAll tbl (Some n) None None = filter (\<lambda>r. holds r (ILike ''name'' n)) tbl
   \<and> Company_findAll tbl None (Some lo) None
       = filter (\<lambda>r. holds r (AtLeast ''num_employees'' lo)) tbl
   \<and> Company_findAll tbl None None (Some hi)
       = filter (\<lambda>r. holds r (AtMost ''num_employees'' hi)) tbl
   \<and> set (Job_findAll tbl title minSalary hasEquity)
       = set (Job_findAll tbl title None None) \<inter> set (Job_findAll tbl None minSalary None)
         \<inter> set (Job_findAll tbl None None hasEquity)
   \<and> set (Company_findAll tbl name minEmployees maxEmployees)
       = set (Company_findAll tbl name None None) \<inter> set (Company_findAll tbl None minEmployees None)
         \<inter> set (Company_findAll tbl None None maxEmployees)"
proof -
  have none: "Job_filters None None None = []" "Company_filters None None None = []"
    by (simp_all add: Job_filters_def Company_filters_def)
  then have everything: "Job_findAll tbl None None None = tbl"
    "Company_findAll tbl None None None = tbl"
    by (simp_all add: Job_findAll_def Company_findAll_def select_where_Nil)
  have route: "GET_companies_args Number None None None = Inr (None, None, None)"
    by (simp add: GET_companies_args_def number_or_undefined_def)
  have count: "length (Job_filters title minSalary hasEquity)
       = (if title = None then 0 else 1) + (if minSalary = None then 0 else 1)
         + (if hasEquity = Some True then 1 else 0)"
    "length (Company_filters name minEmployees maxEmployees)
       = (if name = None then 0 else 1) + (if minEmployees = None then 0 else 1)
         + (if maxEmployees = None then 0 else 1)"
    by (simp_all add: Job_filters_def Company_filters_def split: option.splits)
  have single_job:
    "Job_findAll tbl (Some t) None None = filter (\<lambda>r. holds r (ILike ''title'' t)) tbl"
    "Job_findAll tbl None (Some m) None = filter (\<lambda>r. holds r (AtLeast ''salary'' m)) tbl"
    "Job_findAll tbl None None (Some True) = filter (\<lambda>r. holds r (Positive ''equity'')) tbl"
    by (simp_all add: Job_findAll_def Job_filters_def select_where_single)
  have single_company:
    "Company_findAll tbl (Some n) None None = filter (\<lambda>r. holds r (ILike ''name'' n)) tbl"
    "Company_findAll tbl None (Some lo) None
       = filter (\<lambda>r. holds r (AtLeast ''num_employees'' lo)) tbl"
    "Company_findAll tbl None None (Some hi)
       = filter (\<lambda>r. holds r (AtMost ''num_employees'' hi)) tbl"
    by (simp_all add: Company_findAll_def Company_filters_def select_where_single)
  from none everything route count single_job single_company
    set_Job_findAll [of tbl title minSalary hasEquity]
    set_Company_findAll [of tbl name minEmployees maxEmployees]
  show ?thesis by (intro conjI)
qed

theorem findAll_conjunction_witness:
  "Job_findAll test_jobs None None None = test_jobs
   \<and> map (\<lambda>r. r ''title'') (Job_findAll test_jobs (Some ''j1'') None None) = [Some (SqlText ''j1'')]
   \<and> map (\<lambda>r. r ''title'') (Job_findAll test_jobs None (Some 200000) None)
       = [Some (SqlText ''j2''), Some (SqlText ''j3'')]
   \<and> set (Job_findAll test_jobs (Some ''J'') (Some 200000) None)
       = set (Job_findAll test_jobs (Some ''J'') None None)
         \<inter> set (Job_findAll test_jobs None (Some 200000) None)
         \<inter> set (Job_findAll test_jobs None None None)"
proof -
  note finder = findAll_conjunction [of test_jobs "\<lambda>s. NaN" "Some ''J''" "Some 200000" None None None None
      "''j1''" 200000]
  have "map (\<lambda>r. r ''title'') (filter (\<lambda>r. holds r (ILike ''title'' ''j1'')) test_jobs)
          = [Some (SqlText ''j1'')]"
    by (simp add: test_jobs_def job_row_def to_lower_def)
  moreover have "map (\<lambda>r. r ''title'') (filter (\<lambda>r. holds r (AtLeast ''salary'' 200000)) test_jobs)
          = [Some (SqlText ''j2''), Some (SqlText ''j3'')]"
    by (simp add: test_jobs_def job_row_def)
  ultimately show ?thesis using finder by simp
qed

text \<open>
  Claim C7. With \<^verbatim>\<open>hasEquity\<close> true the job finder returns, of the rows that pass
  the other filters, exactly those whose equity is a number strictly above zero
  (so neither missing nor \<^verbatim>\<open>NULL\<close>); with \<^verbatim>\<open>hasEquity\<close> false it builds the same
  predicates and returns the same rows as with \<^verbatim>\<open>hasEquity\<close> omitted, which
  without other filters is every row.
\<close>

theorem Job_findAll_hasEquity:
  "Job_findAll tbl title minSalary (Some True)
     = filter (\<lambda>r. \<exists>e. r ''equity'' = Some (SqlNumeric e) \<and> 0 < e)
         (Job_findAll tbl title minSalary None)
   \<and> set (Job_findAll tbl None None (Some True))
       = {r \<in> set tbl. r ''equity'' \<noteq> None \<and> r ''equity'' \<noteq> Some SqlNull
                       \<and> (\<exists>e. r ''equity'' = Some (SqlNumeric e) \<and> 0 < e)}
   \<and> Job_filters title minSalary (Some False) = Job_filters title minSalary None
   \<and> Job_findAll tbl title minSalary (Some False) = Job_findAll tbl title minSalary None
   \<and> Job_findAll tbl None None (Some False) = tbl \<and> Job_findAll tbl None None None = tbl"
proof -
  have positive: "holds r (Positive ''equity'') \<longleftrightarrow> (\<exists>e. r ''equity'' = Some (SqlNumeric e) \<and> 0 < e)"
    for r
    by (auto split: option.splits sqlval.splits)
  have "Job_filters title minSalary (Some True)
          = Job_filters title minSalary None @ [Positive ''equity'']"
    by (simp add: Job_filters_def)
  then have "Job_findAll tbl title minSalary (Some True)
      = select_where [Positive ''equity''] (Job_findAll tbl title minSalary None)"
    by (simp add: Job_findAll_def select_where_append)
  then have true: "Job_findAll tbl title minSalary (Some True)
     = filter (\<lambda>r. \<exists>e. r ''equity'' = Some (SqlNumeric e) \<and> 0 < e)
         (Job_findAll tbl title minSalary None)"
    by (simp only: select_where_single positive)
  have alone: "set (Job_findAll tbl None None (Some True))
       = {r \<in> set tbl. r ''equity'' \<noteq> None \<and> r ''equity'' \<noteq> Some SqlNull
                       \<and> (\<exists>e. r ''equity'' = Some (SqlNumeric e) \<and> 0 < e)}"
  proof -
    have "Job_findAll tbl None None (Some True) = filter (\<lambda>r. holds r (Positive ''equity'')) tbl"
      by (simp add: Job_findAll_def Job_filters_def select_where_single del: holds.simps)
    then have "set (Job_findAll tbl None None (Some True))
        = {r \<in> set tbl. \<exists>e. r ''equity'' = Some (SqlNumeric e) \<and> 0 < e}"
      by (simp only: positive set_filter)
    then show ?thesis by auto
  qed
  have false: "Job_filters title minSalary (Some False) = Job_filters title minSalary None"
    by (simp add: Job_filters_def)
  then have same: "Job_findAll tbl title minSalary (Some False) = Job_findAll tbl title minSalary None"
    by (simp add: Job_findAll_def)
  have "Job_findAll tbl None None None = tbl"
    by (simp add: Job_findAll_def Job_filters_def select_where_Nil)
  moreover have "Job_findAll tbl None None (Some False) = tbl"
    by (simp add: Job_findAll_def Job_filters_def select_where_Nil)
  ultimately show ?thesis using true alone false same by (intro conjI)
qed

theorem Job_findAll_hasEquity_witness:
  "map (\<lambda>r. r ''id'')
     (Job_findAll
        [job_row 1 ''j1'' (SqlInt 100000) (SqlNumeric (1/10)) ''c1'',
         job_row 2 ''j2'' (SqlInt 200000) (SqlNumeric 0) ''c2'',
         job_row 3 ''j3'' SqlNull SqlNull ''c3'']
        None None (Some True)) = [Some (SqlInt 1)]
   \<and> map (\<lambda>r. r ''id'')
     (Job_findAll
        [job_row 1 ''j1'' (SqlInt 100000) (SqlNumeric (1/10)) ''c1'',
         job_row 2 ''j2'' (SqlInt 200000) (SqlNumeric 0) ''c2'',
         job_row 3 ''j3'' SqlNull SqlNull ''c3'']
        None None (Some False)) = [Some (SqlInt 1), Some (SqlInt 2), Some (SqlInt 3)]"
proof -
  let ?tbl = "[job_row 1 ''j1'' (SqlInt 100000) (SqlNumeric (1/10)) ''c1'',
         job_row 2 ''j2'' (SqlInt 200000) (SqlNumeric 0) ''c2'',
         job_row 3 ''j3'' SqlNull SqlNull ''c3'']"
  note equity = Job_findAll_hasEquity [of ?tbl None None]
  have "(\<exists>e. r ''equity'' = Some (SqlNumeric e) \<and> 0 < e)
      \<longleftrightarrow> (case r ''equity'' of Some (SqlNumeric e) \<Rightarrow> 0 < e | _ \<Rightarrow> False)" for r :: row
    by (auto split: option.splits sqlval.splits)
  with equity have "Job_findAll ?tbl None None (Some True)
      = filter (\<lambda>r. case r ''equity'' of Some (SqlNumeric e) \<Rightarrow> 0 < e | _ \<Rightarrow> False) ?tbl"
    by simp
  moreover from equity have "Job_findAll ?tbl None None (Some False) = ?tbl"
    by simp
  ultimately show ?thesis
    by (simp add: job_row_def)
qed

end
